theory Spec2Isabelle
  imports Complex_Main "HOL-Library.Sublist" "HOL-Library.AList" "HOL-Library.Char_ord"
    "HOL-Library.List_Lexorder"
begin

section \<open>kismap: band classification and signal weight\<close>

text \<open>
  The numbers of \<^verbatim>\<open>kismap.py\<close> are Python numbers: the frequency of a packet is a
  REAL column of the Kismet database, a double; the signal is an INT column. They are
  modelled by real numbers. The band edges in MHz are whole numbers, but in GHz most of
  them (2.4, 5.15, 5.895, 5.925) are not doubles, so the product of the GHz branch of
  \<open>get_band\<close> is rounded to a double as Python rounds it: the double nearest to 2.4
  lies below 2.4, and its product with 1000 is the double 2400. The quotient of the kHz
  branch and the arithmetic of \<open>signal_to_weight\<close> are exact, and the literal
  \<^verbatim>\<open>0.1\<close> is one tenth.
\<close>

subsection \<open>Rounding to a double\<close>

text \<open>
  A double has 53 significant bits and a binary exponent from -1022 to 1023; a result
  is rounded to the nearest double, a tie to the one whose last bit is 0. Overflow to
  infinity is not modelled: the only rounded result, the product in \<open>get_band\<close>, is
  at most 100000.
\<close>

definition round_half_even :: "real \<Rightarrow> int" where
  "round_half_even q =
     (let n = \<lfloor>q\<rfloor>; d = q - of_int n
      in if d < 1 / 2 then n
         else if 1 / 2 < d then n + 1
         else if even n then n else n + 1)"

function exponent_up :: "real \<Rightarrow> int \<Rightarrow> int" where
  "exponent_up x e = (if 2 \<le> x \<and> e < 1023 then exponent_up (x / 2) (e + 1) else e)"
  by pat_completeness auto
termination
  by (relation "measure (\<lambda>(x, e). nat (1023 - e))") auto

function exponent_down :: "real \<Rightarrow> int \<Rightarrow> int" where
  "exponent_down x e = (if x < 1 \<and> - 1022 < e then exponent_down (x * 2) (e - 1) else e)"
  by pat_completeness auto
termination
  by (relation "measure (\<lambda>(x, e). nat (e + 1022))") auto

text \<open>The binary exponent of \<open>x\<close>, not below that of the subnormal doubles.\<close>

definition double_exponent :: "real \<Rightarrow> int" where
  "double_exponent x =
     (if 1 \<le> \<bar>x\<bar> then exponent_up \<bar>x\<bar> 0 else exponent_down \<bar>x\<bar> 0)"

definition pow2 :: "int \<Rightarrow> real" where
  "pow2 k = (if 0 \<le> k then 2 ^ nat k else 1 / 2 ^ nat (- k))"

definition round_double :: "real \<Rightarrow> real" where
  "round_double x =
     (if x = 0 then 0
      else let ulp = pow2 (double_exponent x - 52)
           in of_int (round_half_even (x / ulp)) * ulp)"

text \<open>Python's \<^verbatim>\<open>x * y\<close> on floats.\<close>

definition float_mul :: "real \<Rightarrow> real \<Rightarrow> real" where
  "float_mul x y = round_double (x * y)"

subsection \<open>The two functions\<close>

definition get_band :: "real \<Rightarrow> string" where
  "get_band frequency =
     (if frequency \<le> 0 then ''unknown''
      else
        let freq_mhz =
              (if frequency > 100000 then frequency / 1000
               else if frequency > 100 then frequency
               else float_mul frequency 1000)
        in if 2400 \<le> freq_mhz \<and> freq_mhz \<le> 2500 then ''2.4''
           else if 5150 \<le> freq_mhz \<and> freq_mhz \<le> 5895 then ''5''
           else if 5925 \<le> freq_mhz \<and> freq_mhz \<le> 7125 then ''6''
           else ''unknown'')"

definition signal_to_weight :: "real \<Rightarrow> real" where
  "signal_to_weight signal_dbm =
     (let min_signal = - 95;
          max_signal = - 30;
          normalized = (signal_dbm - min_signal) / (max_signal - min_signal)
      in max (1 / 10) (min 1 normalized))"

section \<open>The Kismet database and the values read from it\<close>

text \<open>
  The values \<^verbatim>\<open>json.loads\<close> builds: a device's SSID is whatever the JSON of the
  device holds under the SSID key, so it is a Python value, \<open>PNone\<close> for \<^verbatim>\<open>None\<close>.
  A dictionary is the list of its items in insertion order, with distinct keys.
\<close>

datatype pyval =
    PNone
  | PBool bool
  | PNum real
  | PStr string
  | PList "pyval list"
  | PDict "(string \<times> pyval) list"

datatype py_error = AttributeError | UnicodeDecodeError | TypeError | DatabaseError

text \<open>Python's truth value of an object, as \<^verbatim>\<open>if x:\<close> tests it.\<close>

fun truthy :: "pyval \<Rightarrow> bool" where
  "truthy PNone = False"
| "truthy (PBool b) = b"
| "truthy (PNum n) = (n \<noteq> 0)"
| "truthy (PStr s) = (s \<noteq> [])"
| "truthy (PList xs) = (xs \<noteq> [])"
| "truthy (PDict kvs) = (kvs \<noteq> [])"

text \<open>\<^verbatim>\<open>obj.get(key, default)\<close>: only a dictionary has the method.\<close>

fun py_get :: "pyval \<Rightarrow> string \<Rightarrow> pyval \<Rightarrow> py_error + pyval" where
  "py_get (PDict kvs) k d = Inr (case map_of kvs k of None \<Rightarrow> d | Some v \<Rightarrow> v)"
| "py_get _ k d = Inl AttributeError"

text \<open>\<^verbatim>\<open>sub in s\<close> on strings: \<open>sub\<close> occurs in \<open>s\<close> as a contiguous piece.\<close>

fun str_contains :: "string \<Rightarrow> string \<Rightarrow> bool" where
  "str_contains sub [] = (sub = [])"
| "str_contains sub (c # cs) = (prefix sub (c # cs) \<or> str_contains sub cs)"

text \<open>
  The \<^verbatim>\<open>device\<close> column of a row, by what the loader makes of it: a NULL or empty
  value is skipped by \<^verbatim>\<open>if row['device']\<close>; on a value that is not JSON
  \<^verbatim>\<open>json.loads\<close> raises JSONDecodeError or TypeError, which the loader catches; on
  bytes that are not text it raises UnicodeDecodeError, which the loader does not catch;
  otherwise it returns the parsed value.
\<close>

datatype device_column = Falsy | NotJson | Undecodable | Json pyval

record device_row =
  devmac :: string
  row_type :: "string option"
  strongest_signal :: int
  avg_lat :: real
  avg_lon :: real
  device :: device_column

record packet_row =
  row_lat :: real
  row_lon :: real
  row_signal :: int
  row_frequency :: real
  sourcemac :: string
  destmac :: string
  ts_sec :: int

record database =
  devices_table :: "device_row list"
  packets_table :: "packet_row list"

text \<open>The two SELECT statements of the loader, and the cursor that runs them.\<close>

datatype query = SelectDevices | SelectPackets

record cursor =
  conn :: database
  executed :: "query list"

definition execute_select_devices :: "cursor \<Rightarrow> device_row list \<times> cursor" where
  "execute_select_devices c =
     (filter (\<lambda>r. avg_lat r \<noteq> 0 \<and> avg_lon r \<noteq> 0) (devices_table (conn c)),
      c\<lparr>executed := executed c @ [SelectDevices]\<rparr>)"

definition execute_select_packets :: "cursor \<Rightarrow> packet_row list \<times> cursor" where
  "execute_select_packets c =
     (sort_key ts_sec
        (filter (\<lambda>r. row_lat r \<noteq> 0 \<and> row_lon r \<noteq> 0 \<and> row_signal r \<noteq> 0)
           (packets_table (conn c))),
      c\<lparr>executed := executed c @ [SelectPackets]\<rparr>)"

section \<open>Command line arguments\<close>

text \<open>
  The namespace \<^verbatim>\<open>parse_args\<close> returns. An option with \<^verbatim>\<open>action='append'\<close> is
  \<^verbatim>\<open>None\<close> when it is not given and the list of its values otherwise.
\<close>

record args =
  arg_input :: string
  arg_output :: string
  arg_essid :: "string list option"
  arg_mac :: "string list option"
  arg_type :: "string list option"
  arg_band :: "string list option"
  arg_min_signal :: int
  arg_all_devices :: bool
  arg_no_heatmap :: bool
  arg_export_csv :: bool
  arg_verbose :: bool

text \<open>The truth value of such an option, and its values.\<close>

definition given :: "string list option \<Rightarrow> bool" where
  "given a = (case a of None \<Rightarrow> False | Some xs \<Rightarrow> xs \<noteq> [])"

definition values_of :: "string list option \<Rightarrow> string list" where
  "values_of a = (case a of None \<Rightarrow> [] | Some xs \<Rightarrow> xs)"

section \<open>Loading and filtering\<close>

record device_info =
  dev_type :: "string option"
  dev_strongest_signal :: int
  dev_avg_lat :: real
  dev_avg_lon :: real
  dev_ssid :: pyval

type_synonym devices = "(string \<times> device_info) list"

text \<open>
  The SSID the loader stores for a device row (\<open>PNone\<close> when it stores none), or the
  exception that leaves the loader.
\<close>

definition beaconed_ssid :: "device_column \<Rightarrow> py_error + pyval" where
  "beaconed_ssid col =
     (case col of
        Falsy \<Rightarrow> Inr PNone
      | NotJson \<Rightarrow> Inr PNone
      | Undecodable \<Rightarrow> Inl UnicodeDecodeError
      | Json device_json \<Rightarrow>
          (case py_get device_json ''dot11.device'' (PDict []) of
             Inl e \<Rightarrow> Inl e
           | Inr dot11 \<Rightarrow>
               if truthy dot11 then
                 (case py_get dot11 ''dot11.device.last_beaconed_ssid_record'' (PDict []) of
                    Inl e \<Rightarrow> Inl e
                  | Inr ssid_record \<Rightarrow>
                      if truthy ssid_record then
                        (case py_get ssid_record ''dot11.advertisedssid.ssid'' (PStr []) of
                           Inl e \<Rightarrow> Inl e
                         | Inr s \<Rightarrow> if truthy s then Inr s else Inr PNone)
                      else Inr PNone)
               else Inr PNone))"

fun load_devices :: "device_row list \<Rightarrow> devices \<Rightarrow> py_error + devices" where
  "load_devices [] devs = Inr devs"
| "load_devices (row # rows) devs =
     (case beaconed_ssid (device row) of
        Inl e \<Rightarrow> Inl e
      | Inr s \<Rightarrow>
          load_devices rows
            (AList.update (devmac row)
               \<lparr>dev_type = row_type row, dev_strongest_signal = strongest_signal row,
                dev_avg_lat = avg_lat row, dev_avg_lon = avg_lon row, dev_ssid = s\<rparr>
               devs))"

record packet =
  lat :: real
  lon :: real
  signal :: int
  frequency :: real
  mac :: string
  timestamp :: int
  band :: string
  ssid :: pyval
  type :: "string option"

definition make_packet :: "devices \<Rightarrow> packet_row \<Rightarrow> packet" where
  "make_packet devs row =
     (let info = map_of devs (sourcemac row)
      in \<lparr>lat = row_lat row, lon = row_lon row, signal = row_signal row,
          frequency = row_frequency row, mac = sourcemac row, timestamp = ts_sec row,
          band = get_band (row_frequency row),
          ssid = (case info of None \<Rightarrow> PNone | Some d \<Rightarrow> dev_ssid d),
          type = (case info of None \<Rightarrow> None | Some d \<Rightarrow> dev_type d)\<rparr>)"

text \<open>The six tests of the loop body, in its order; each one skips the packet.\<close>

definition skip_band :: "args \<Rightarrow> packet \<Rightarrow> bool" where
  "skip_band a p = (given (arg_band a) \<and> band p \<notin> set (values_of (arg_band a)))"

definition skip_min_signal :: "args \<Rightarrow> packet \<Rightarrow> bool" where
  "skip_min_signal a p = (arg_min_signal a \<noteq> 0 \<and> signal p < arg_min_signal a)"

definition skip_type :: "args \<Rightarrow> packet \<Rightarrow> bool" where
  "skip_type a p = (given (arg_type a) \<and> type p \<notin> set (map Some (values_of (arg_type a))))"

definition skip_essid :: "args \<Rightarrow> packet \<Rightarrow> bool" where
  "skip_essid a p = (given (arg_essid a) \<and> ssid p \<notin> set (map PStr (values_of (arg_essid a))))"

definition skip_mac :: "args \<Rightarrow> packet \<Rightarrow> bool" where
  "skip_mac a p = (given (arg_mac a) \<and> mac p \<notin> set (values_of (arg_mac a)))"

definition skip_not_ap :: "args \<Rightarrow> packet \<Rightarrow> bool" where
  "skip_not_ap a p =
     (\<not> arg_all_devices a \<and>
      (case type p of None \<Rightarrow> False | Some t \<Rightarrow> t \<noteq> [] \<and> \<not> str_contains ''AP'' t))"

fun filter_packets :: "args \<Rightarrow> devices \<Rightarrow> packet_row list \<Rightarrow> packet list \<Rightarrow> packet list" where
  "filter_packets a devs [] packets = packets"
| "filter_packets a devs (row # rows) packets =
     (let p = make_packet devs row
      in if skip_band a p then filter_packets a devs rows packets
         else if skip_min_signal a p then filter_packets a devs rows packets
         else if skip_type a p then filter_packets a devs rows packets
         else if skip_essid a p then filter_packets a devs rows packets
         else if skip_mac a p then filter_packets a devs rows packets
         else if skip_not_ap a p then filter_packets a devs rows packets
         else filter_packets a devs rows (packets @ [p]))"

text \<open>
  The loader: the statements it ran, and the packets and devices it returns or the
  exception that leaves it.
\<close>

definition load_kismet_data ::
    "database \<Rightarrow> args \<Rightarrow> query list \<times> (py_error + packet list \<times> devices)" where
  "load_kismet_data db a =
     (let c0 = \<lparr>conn = db, executed = []\<rparr>;
          (device_rows, c1) = execute_select_devices c0
      in case load_devices device_rows [] of
           Inl e \<Rightarrow> (executed c1, Inl e)
         | Inr devs \<Rightarrow>
             let (packet_rows, c2) = execute_select_packets c1
             in (executed c2, Inr (filter_packets a devs packet_rows [], devs)))"

section \<open>The heatmap\<close>

text \<open>
  What \<^verbatim>\<open>generate_heatmap\<close> hands to the map library: the centre of the map, one heat
  layer per band with its points \<open>(lat, lon, weight)\<close>, and one marker per access point.
\<close>

record marker =
  marker_location :: "real \<times> real"
  marker_tooltip :: pyval
  marker_mac :: string
  marker_signal :: int
  marker_type :: "string option"

record heatmap =
  center :: "real \<times> real"
  heat_layers :: "(string \<times> (real \<times> real \<times> real) list) list"
  markers :: "marker list"

datatype message =
    FoliumRequired
  | InstallHint
  | InputNotFound string
  | Loading string
  | Found nat nat
  | PacketsByBand "(string \<times> nat) list"
  | PacketsByType "(string \<times> nat) list"
  | TopSsids "(pyval \<times> nat) list"
  | Generating
  | NoPacketsMatch
  | HeatmapSaved string
  | CsvExported string
  | OpenHint string

fun heat_data_by_band ::
    "packet list \<Rightarrow> (string \<times> (real \<times> real \<times> real) list) list \<Rightarrow>
     (string \<times> (real \<times> real \<times> real) list) list" where
  "heat_data_by_band [] layers = layers"
| "heat_data_by_band (p # ps) layers =
     (let weight = signal_to_weight (real_of_int (signal p));
          old = (case map_of layers (band p) of None \<Rightarrow> [] | Some pts \<Rightarrow> pts)
      in heat_data_by_band ps (AList.update (band p) (old @ [(lat p, lon p, weight)]) layers))"

fun ap_markers :: "devices \<Rightarrow> marker list" where
  "ap_markers [] = []"
| "ap_markers ((m, dev) # rest) =
     (if dev_avg_lat dev = 0 \<or> dev_avg_lon dev = 0 then ap_markers rest
      else if (case dev_type dev of None \<Rightarrow> False
               | Some t \<Rightarrow> t \<noteq> [] \<and> \<not> str_contains ''AP'' t) then ap_markers rest
      else \<lparr>marker_location = (dev_avg_lat dev, dev_avg_lon dev),
            marker_tooltip = (if truthy (dev_ssid dev) then dev_ssid dev else PStr ''Hidden''),
            marker_mac = m, marker_signal = dev_strongest_signal dev,
            marker_type = dev_type dev\<rparr> # ap_markers rest)"

definition generate_heatmap ::
    "packet list \<Rightarrow> devices \<Rightarrow> args \<Rightarrow> message list \<times> heatmap option" where
  "generate_heatmap packets devs a =
     (if packets = [] then ([NoPacketsMatch], None)
      else
        let lats = map lat packets;
            lons = map lon packets;
            center_lat = sum_list lats / real (length lats);
            center_lon = sum_list lons / real (length lons)
        in ([], Some \<lparr>center = (center_lat, center_lon),
                      heat_layers = (if \<not> arg_no_heatmap a then heat_data_by_band packets [] else []),
                      markers = ap_markers devs\<rparr>))"

section \<open>The CSV export\<close>

text \<open>
  \<^verbatim>\<open>s.replace(old, new)\<close> for a pattern \<open>old\<close> that is not empty: the occurrences of
  \<open>old\<close> are found from the left and do not overlap. The counter is the number of
  characters of a found occurrence still to be passed over.
\<close>

fun replace_from :: "string \<Rightarrow> string \<Rightarrow> nat \<Rightarrow> string \<Rightarrow> string" where
  "replace_from old new k [] = []"
| "replace_from old new (Suc k) (c # cs) = replace_from old new k cs"
| "replace_from old new 0 (c # cs) =
     (if prefix old (c # cs) then new @ replace_from old new (length old - 1) cs
      else c # replace_from old new 0 cs)"

definition str_replace :: "string \<Rightarrow> string \<Rightarrow> string \<Rightarrow> string" where
  "str_replace old new s = replace_from old new 0 s"

text \<open>The decimal text of an integer, as an f-string prints it.\<close>

fun str_nat :: "nat \<Rightarrow> string" where
  "str_nat n =
     (if n < 10 then [''0123456789'' ! n]
      else str_nat (n div 10) @ [''0123456789'' ! (n mod 10)])"

definition str_int :: "int \<Rightarrow> string" where
  "str_int i = (if i < 0 then CHR ''-'' # str_nat (nat (- i)) else str_nat (nat i))"

text \<open>
  The SSID as the export writes it: \<^verbatim>\<open>(p.get('ssid') or '')\<close>, then the two
  replacements; only a string has \<^verbatim>\<open>replace\<close>. \<open>CHR 0x22\<close> is the double quote,
  \<open>CHR 0x27\<close> the single quote, \<open>CHR 0x0A\<close> the end of a line.
\<close>

definition csv_ssid :: "pyval \<Rightarrow> py_error + string" where
  "csv_ssid v =
     (case (if truthy v then v else PStr []) of
        PStr s \<Rightarrow> Inr (str_replace [CHR 0x22] [CHR 0x27] (str_replace '','' '';'' s))
      | _ \<Rightarrow> Inl AttributeError)"

definition csv_header :: string where
  "csv_header = ''timestamp,lat,lon,signal,frequency_khz,band,mac,ssid,type'' @ [CHR 0x0A]"

text \<open>
  One data row. The text Python prints for a float is not part of the program: it is
  the parameter \<open>float_str\<close>.
\<close>

definition csv_row :: "(real \<Rightarrow> string) \<Rightarrow> packet \<Rightarrow> py_error + string" where
  "csv_row float_str p =
     (case csv_ssid (ssid p) of
        Inl e \<Rightarrow> Inl e
      | Inr s \<Rightarrow>
          Inr (str_int (timestamp p) @ '','' @ float_str (lat p) @ '','' @
               float_str (lon p) @ '','' @ str_int (signal p) @ '','' @
               float_str (frequency p) @ '','' @ band p @ '','' @ mac p @ '','' @
               [CHR 0x22] @ s @ [CHR 0x22] @ '','' @
               (case type p of None \<Rightarrow> ''None'' | Some t \<Rightarrow> t) @ [CHR 0x0A]))"

fun write_rows ::
    "(real \<Rightarrow> string) \<Rightarrow> packet list \<Rightarrow> string list \<Rightarrow> string list \<times> py_error option" where
  "write_rows float_str [] written = (written, None)"
| "write_rows float_str (p # ps) written =
     (case csv_row float_str p of
        Inl e \<Rightarrow> (written, Some e)
      | Inr line \<Rightarrow> write_rows float_str ps (written @ [line]))"

text \<open>
  The export: the path of the CSV file, the text written to it, and the exception that
  ended the writing, if any.
\<close>

definition export_csv ::
    "(real \<Rightarrow> string) \<Rightarrow> packet list \<Rightarrow> string \<Rightarrow> string \<times> string list \<times> py_error option" where
  "export_csv float_str packets output_path =
     (let csv_path = str_replace ''.html'' ''.csv'' output_path;
          (written, err) = write_rows float_str packets [csv_header]
      in (csv_path, written, err))"

section \<open>The main program\<close>

text \<open>
  The world the program runs in: whether \<^verbatim>\<open>folium\<close> could be imported, and the files
  that exist, each a Kismet database or something else. What the program does to it is
  the list of its events, in order, and the way it ends: with an exit status, or with
  an exception nobody catches.
\<close>

datatype fs_entry = KismetFile database | OtherFile

record world =
  folium_available :: bool
  files :: "string \<Rightarrow> fs_entry option"

datatype event =
    Print message
  | Connect string
  | SaveHtml string heatmap
  | WriteCsv string "string list"

datatype ending = Exit int | Uncaught py_error

text \<open>
  The counts printed under \<^verbatim>\<open>--verbose\<close>. A dictionary finds a key by Python's
  \<^verbatim>\<open>==\<close>, under which \<^verbatim>\<open>True\<close> is 1 and \<^verbatim>\<open>False\<close> is 0, and keeps the key
  it saw first; a list or a dictionary is no key.
\<close>

definition bump :: "string \<Rightarrow> (string \<times> nat) list \<Rightarrow> (string \<times> nat) list" where
  "bump k counts = AList.update k (case map_of counts k of None \<Rightarrow> 1 | Some n \<Rightarrow> n + 1) counts"

fun py_eq :: "pyval \<Rightarrow> pyval \<Rightarrow> bool" where
  "py_eq (PBool b) (PNum n) = (n = (if b then 1 else 0))"
| "py_eq (PNum n) (PBool b) = (n = (if b then 1 else 0))"
| "py_eq x y = (x = y)"

fun bump_value :: "pyval \<Rightarrow> (pyval \<times> nat) list \<Rightarrow> (pyval \<times> nat) list" where
  "bump_value k [] = [(k, 1)]"
| "bump_value k ((k', n) # counts) =
     (if py_eq k k' then (k', n + 1) # counts else (k', n) # bump_value k counts)"

fun hashable :: "pyval \<Rightarrow> bool" where
  "hashable (PList xs) = False"
| "hashable (PDict kvs) = False"
| "hashable _ = True"

fun count_packets ::
    "packet list \<Rightarrow> (string \<times> nat) list \<times> (string \<times> nat) list \<times> (pyval \<times> nat) list \<Rightarrow>
     py_error + (string \<times> nat) list \<times> (string \<times> nat) list \<times> (pyval \<times> nat) list" where
  "count_packets [] acc = Inr acc"
| "count_packets (p # ps) (bands, types, ssids) =
     (let bands' = bump (band p) bands;
          types' = (case type p of None \<Rightarrow> types
                    | Some t \<Rightarrow> if t \<noteq> [] then bump t types else types)
      in if truthy (ssid p) then
           (if hashable (ssid p) then
              count_packets ps (bands', types', bump_value (ssid p) ssids)
            else Inl TypeError)
         else count_packets ps (bands', types', ssids))"

definition verbose_report :: "packet list \<Rightarrow> py_error + message list" where
  "verbose_report packets =
     (case count_packets packets ([], [], []) of
        Inl e \<Rightarrow> Inl e
      | Inr (bands, types, ssids) \<Rightarrow>
          Inr [PacketsByBand (sort_key fst bands),
               PacketsByType (take 10 (sort_key (\<lambda>x. - int (snd x)) types)),
               TopSsids (take 10 (sort_key (\<lambda>x. - int (snd x)) ssids))])"

text \<open>
  \<open>main\<close> after \<^verbatim>\<open>parse_args\<close> has returned the namespace \<open>a\<close>.
\<close>

definition main :: "(real \<Rightarrow> string) \<Rightarrow> world \<Rightarrow> args \<Rightarrow> event list \<times> ending" where
  "main float_str w a =
     (if \<not> folium_available w then ([Print FoliumRequired, Print InstallHint], Exit 1)
      else case files w (arg_input a) of
        None \<Rightarrow> ([Print (InputNotFound (arg_input a))], Exit 1)
      | Some f \<Rightarrow>
          let ev1 = [Print (Loading (arg_input a)), Connect (arg_input a)]
          in case f of
               OtherFile \<Rightarrow> (ev1, Uncaught DatabaseError)
             | KismetFile db \<Rightarrow>
                 (case snd (load_kismet_data db a) of
                    Inl e \<Rightarrow> (ev1, Uncaught e)
                  | Inr (packets, devs) \<Rightarrow>
                      let ev2 = ev1 @ [Print (Found (length packets) (length devs))]
                      in case (if arg_verbose a then verbose_report packets else Inr []) of
                           Inl e \<Rightarrow> (ev2, Uncaught e)
                         | Inr stats \<Rightarrow>
                             let ev3 = ev2 @ map Print stats @ [Print Generating];
                                 (said, hm) = generate_heatmap packets devs a;
                                 ev4 = ev3 @ map Print said
                             in case hm of
                                  None \<Rightarrow> (ev4, Exit 0)
                                | Some h \<Rightarrow>
                                    let ev5 = ev4 @ [SaveHtml (arg_output a) h,
                                                     Print (HeatmapSaved (arg_output a))]
                                    in if arg_export_csv a then
                                         (case export_csv float_str packets (arg_output a) of
                                            (csv_path, written, Some e) \<Rightarrow>
                                              (ev5 @ [WriteCsv csv_path written], Uncaught e)
                                          | (csv_path, written, None) \<Rightarrow>
                                              (ev5 @ [WriteCsv csv_path written,
                                                      Print (CsvExported csv_path),
                                                      Print (OpenHint (arg_output a))], Exit 0))
                                       else (ev5 @ [Print (OpenHint (arg_output a))], Exit 0)))"

text \<open>
  The normalisation to MHz as the specification words it: three ranges of a positive
  frequency, each with its own unit; a frequency that is not positive has no
  normalised value. The product is the one Python computes.
\<close>

definition spec_normalize_mhz :: "real \<Rightarrow> real option" where
  "spec_normalize_mhz f =
     (if f > 100000 then Some (f / 1000)
      else if 100 < f \<and> f \<le> 100000 then Some f
      else if 0 < f \<and> f \<le> 100 then Some (float_mul f 1000)
      else None)"

section \<open>Notions the statements use\<close>

text \<open>A packet is kept when none of the six tests of the loop body skips it.\<close>

definition keeps :: "args \<Rightarrow> packet \<Rightarrow> bool" where
  "keeps a p =
     (\<not> skip_band a p \<and> \<not> skip_min_signal a p \<and> \<not> skip_type a p \<and>
      \<not> skip_essid a p \<and> \<not> skip_mac a p \<and> \<not> skip_not_ap a p)"

text \<open>A text with neither a comma nor a double quote in it.\<close>

definition plain :: "string \<Rightarrow> bool" where
  "plain s = (CHR '','' \<notin> set s \<and> CHR 0x22 \<notin> set s)"

text \<open>
  The columns of a CSV line as the specification counts them: the line is split at
  every comma that is not inside a field in double quotes.
\<close>

fun split_csv :: "bool \<Rightarrow> string \<Rightarrow> string \<Rightarrow> string list" where
  "split_csv quoted cur [] = [cur]"
| "split_csv quoted cur (c # cs) =
     (if c = CHR 0x22 then split_csv (\<not> quoted) (cur @ [c]) cs
      else if c = CHR '','' \<and> \<not> quoted then cur # split_csv False [] cs
      else split_csv quoted (cur @ [c]) cs)"

definition spec_csv_columns :: "string \<Rightarrow> string list" where
  "spec_csv_columns line = split_csv False [] line"

section \<open>Example inputs\<close>

text \<open>The namespace of \<^verbatim>\<open>kismap.py -i capture.kismet\<close>: every option at its default.\<close>

definition default_args :: args where
  "default_args =
     \<lparr>arg_input = ''capture.kismet'', arg_output = ''kismet_heatmap.html'',
      arg_essid = None, arg_mac = None, arg_type = None, arg_band = None,
      arg_min_signal = - 100, arg_all_devices = False, arg_no_heatmap = False,
      arg_export_csv = False, arg_verbose = False\<rparr>"

text \<open>A packet on channel 1 seen at time \<open>t\<close> with signal \<open>s\<close> from the MAC \<open>m\<close>.\<close>

definition packet_row_at :: "int \<Rightarrow> int \<Rightarrow> string \<Rightarrow> packet_row" where
  "packet_row_at t s m =
     \<lparr>row_lat = 52, row_lon = 13, row_signal = s, row_frequency = 2412000,
      sourcemac = m, destmac = ''FF:FF:FF:FF:FF:FF'', ts_sec = t\<rparr>"

text \<open>A device with the MAC \<open>m\<close>, of type \<open>t\<close>, whose \<^verbatim>\<open>device\<close> column is \<open>col\<close>.\<close>

definition device_row_of :: "string \<Rightarrow> string \<Rightarrow> device_column \<Rightarrow> device_row" where
  "device_row_of m t col =
     \<lparr>devmac = m, row_type = Some t, strongest_signal = - 40, avg_lat = 52, avg_lon = 13,
      device = col\<rparr>"

text \<open>The JSON of a device that last beaconed the SSID \<open>s\<close>.\<close>

definition device_json_with_ssid :: "string \<Rightarrow> device_column" where
  "device_json_with_ssid s =
     Json (PDict [(''dot11.device'',
       PDict [(''dot11.device.last_beaconed_ssid_record'',
         PDict [(''dot11.advertisedssid.ssid'', PStr s)])])])"

text \<open>The text Python prints for the floats of the examples.\<close>

definition example_float_str :: "real \<Rightarrow> string" where
  "example_float_str x =
     (if x = 52 then ''52.0'' else if x = 13 then ''13.0''
      else if x = 2412000 then ''2412000.0'' else ''0.0'')"

text \<open>A world with \<^verbatim>\<open>folium\<close> installed and no file at all.\<close>

definition example_world :: world where
  "example_world = \<lparr>folium_available = True, files = (\<lambda>path. None)\<rparr>"

lemmas run_defs = load_kismet_data_def execute_select_devices_def execute_select_packets_def
  make_packet_def get_band_def skip_band_def skip_min_signal_def skip_type_def skip_essid_def
  skip_mac_def skip_not_ap_def given_def values_of_def Let_def beaconed_ssid_def
  default_args_def packet_row_at_def device_row_of_def device_json_with_ssid_def

section \<open>Properties of the band classification\<close>

lemma get_band_positive:
  "0 < f \<Longrightarrow> spec_normalize_mhz f = Some m \<Longrightarrow>
   get_band f =
     (if 2400 \<le> m \<and> m \<le> 2500 then ''2.4''
      else if 5150 \<le> m \<and> m \<le> 5895 then ''5''
      else if 5925 \<le> m \<and> m \<le> 7125 then ''6''
      else ''unknown'')"
  by (auto simp: get_band_def spec_normalize_mhz_def Let_def split: if_splits)

lemma spec_normalize_mhz_defined: "0 < f \<Longrightarrow> \<exists>m. spec_normalize_mhz f = Some m"
proof -
  assume "0 < f"
  then have "spec_normalize_mhz f =
      Some (if f > 100000 then f / 1000 else if f > 100 then f else float_mul f 1000)"
    by (simp add: spec_normalize_mhz_def)
  then show ?thesis by blast
qed

lemma get_band_nonpositive: "f \<le> 0 \<Longrightarrow> get_band f = ''unknown''"
  by (simp add: get_band_def)

text \<open>
  C2. For every frequency, \<open>get_band\<close> normalises it to MHz (above 100000 it is kHz and
  is divided by 1000, in (100, 100000] it is MHz, a positive value up to 100 is GHz and
  is multiplied by 1000, in Python's arithmetic) and answers \<open>2.4\<close> exactly when the normalised value lies in
  [2400, 2500], \<open>5\<close> exactly when it lies in [5150, 5895], \<open>6\<close> exactly when it lies in
  [5925, 7125] and \<open>unknown\<close> otherwise; a frequency that is not positive is \<open>unknown\<close>.
\<close>

theorem get_band_classification:
  "(f \<le> 0 \<longrightarrow> get_band f = ''unknown'') \<and>
   (0 < f \<longrightarrow>
     (\<exists>m. spec_normalize_mhz f = Some m \<and>
        (get_band f = ''2.4'' \<longleftrightarrow> 2400 \<le> m \<and> m \<le> 2500) \<and>
        (get_band f = ''5'' \<longleftrightarrow> 5150 \<le> m \<and> m \<le> 5895) \<and>
        (get_band f = ''6'' \<longleftrightarrow> 5925 \<le> m \<and> m \<le> 7125) \<and>
        (get_band f = ''unknown'' \<longleftrightarrow>
           \<not> (2400 \<le> m \<and> m \<le> 2500) \<and> \<not> (5150 \<le> m \<and> m \<le> 5895) \<and>
           \<not> (5925 \<le> m \<and> m \<le> 7125))))"
proof (intro conjI impI)
  assume "f \<le> 0"
  then show "get_band f = ''unknown''" by (rule get_band_nonpositive)
next
  assume pos: "0 < f"
  then obtain m where m: "spec_normalize_mhz f = Some m"
    using spec_normalize_mhz_defined by blast
  have b: "get_band f =
     (if 2400 \<le> m \<and> m \<le> 2500 then ''2.4''
      else if 5150 \<le> m \<and> m \<le> 5895 then ''5''
      else if 5925 \<le> m \<and> m \<le> 7125 then ''6''
      else ''unknown'')"
    using pos m by (rule get_band_positive)
  have "(get_band f = ''2.4'' \<longleftrightarrow> 2400 \<le> m \<and> m \<le> 2500)"
    unfolding b by auto
  moreover have "(get_band f = ''5'' \<longleftrightarrow> 5150 \<le> m \<and> m \<le> 5895)"
    unfolding b by auto
  moreover have "(get_band f = ''6'' \<longleftrightarrow> 5925 \<le> m \<and> m \<le> 7125)"
    unfolding b by auto
  moreover have "(get_band f = ''unknown'' \<longleftrightarrow>
           \<not> (2400 \<le> m \<and> m \<le> 2500) \<and> \<not> (5150 \<le> m \<and> m \<le> 5895) \<and>
           \<not> (5925 \<le> m \<and> m \<le> 7125))"
    unfolding b by auto
  ultimately show "\<exists>m. spec_normalize_mhz f = Some m \<and>
        (get_band f = ''2.4'' \<longleftrightarrow> 2400 \<le> m \<and> m \<le> 2500) \<and>
        (get_band f = ''5'' \<longleftrightarrow> 5150 \<le> m \<and> m \<le> 5895) \<and>
        (get_band f = ''6'' \<longleftrightarrow> 5925 \<le> m \<and> m \<le> 7125) \<and>
        (get_band f = ''unknown'' \<longleftrightarrow>
           \<not> (2400 \<le> m \<and> m \<le> 2500) \<and> \<not> (5150 \<le> m \<and> m \<le> 5895) \<and>
           \<not> (5925 \<le> m \<and> m \<le> 7125))"
    using m by blast
qed

text \<open>
  The frequency \<^verbatim>\<open>2.4\<close> of Python is the double \<open>5404319552844595 / 2 ^ 51\<close>, a
  little below 2.4; Python's product with 1000 is the double 2400, and the band is
  \<open>2.4\<close>.
\<close>

theorem get_band_classification_witness:
  "spec_normalize_mhz 5180000 = Some 5180 \<and> get_band 5180000 = ''5'' \<and>
   spec_normalize_mhz (5404319552844595 / 2 ^ 51) = Some 2400 \<and>
   get_band (5404319552844595 / 2 ^ 51) = ''2.4'' \<and>
   get_band (- 3) = ''unknown''"
proof -
  have n: "spec_normalize_mhz 5180000 = Some 5180"
    by (simp add: spec_normalize_mhz_def)
  have "(0::real) < 5180000" by simp
  with get_band_classification [of 5180000] n have a: "get_band 5180000 = ''5''"
    by auto
  have g: "spec_normalize_mhz (5404319552844595 / 2 ^ 51) = Some 2400"
    by (simp add: spec_normalize_mhz_def float_mul_def round_double_def double_exponent_def
        pow2_def round_half_even_def Let_def)
  have "(0::real) < 5404319552844595 / 2 ^ 51" by simp
  with get_band_classification [of "5404319552844595 / 2 ^ 51"] g
  have b: "get_band (5404319552844595 / 2 ^ 51) = ''2.4''"
    by auto
  have c: "get_band (- 3) = ''unknown''"
    using get_band_classification [of "- 3"] by simp
  show ?thesis using n a g b c by simp
qed

text \<open>
  The other edge that is not a double: Python's \<^verbatim>\<open>5.925\<close> lies below 5.925, its
  product with 1000 is the double 5925, and the band is \<open>6\<close>.
\<close>

lemma get_band_5925: "get_band (6670956948042547 / 2 ^ 50) = ''6''"
  by (simp add: get_band_def float_mul_def round_double_def double_exponent_def
      pow2_def round_half_even_def Let_def)

text \<open>
  C4. A frequency \<open>f\<close> in MHz, \<open>100 < f \<le> 100000\<close>, and the same frequency written in kHz
  get the same band: \<open>get_band (f * 1000) = get_band f\<close>.
\<close>

theorem get_band_khz_invariance:
  "100 < f \<Longrightarrow> f \<le> 100000 \<Longrightarrow> get_band (f * 1000) = get_band f"
  by (simp add: get_band_def Let_def)

theorem get_band_khz_invariance_witness:
  "(100::real) < 2437 \<and> (2437::real) \<le> 100000 \<and>
   get_band (2437 * 1000) = get_band 2437 \<and> get_band 2437 = ''2.4''"
  using get_band_khz_invariance [of 2437] by (simp add: get_band_def)

section \<open>Properties of the signal weight\<close>

text \<open>
  C3. For every signal \<open>s\<close> in dBm, \<open>signal_to_weight s\<close> is
  \<open>max 0.1 (min 1 ((s - (-95)) / ((-30) - (-95))))\<close>, the linear normalisation between
  -95 and -30 dBm clamped to at least 0.1 and at most 1; so the weight lies in [0.1, 1].
\<close>

theorem signal_to_weight_clamped:
  "signal_to_weight s = max (1 / 10) (min 1 ((s - (- 95)) / ((- 30) - (- 95)))) \<and>
   1 / 10 \<le> signal_to_weight s \<and> signal_to_weight s \<le> 1"
  by (simp add: signal_to_weight_def Let_def)

section \<open>The loader as a filter\<close>

lemma filter_packets_eq:
  "filter_packets a devs rows acc = acc @ filter (keeps a) (map (make_packet devs) rows)"
  by (induction rows arbitrary: acc) (auto simp: keeps_def Let_def)

lemma load_result:
  "snd (load_kismet_data db a) = Inr (packets, devs) \<Longrightarrow>
   load_devices (fst (execute_select_devices \<lparr>conn = db, executed = []\<rparr>)) [] = Inr devs \<and>
   packets = filter (keeps a) (map (make_packet devs)
      (sort_key ts_sec
         (filter (\<lambda>r. row_lat r \<noteq> 0 \<and> row_lon r \<noteq> 0 \<and> row_signal r \<noteq> 0)
            (packets_table db))))"
  by (auto simp: load_kismet_data_def execute_select_devices_def execute_select_packets_def
      filter_packets_eq Let_def split: sum.splits prod.splits)

lemma loaded_packets:
  assumes "snd (load_kismet_data db a) = Inr (packets, devs)"
  shows "set packets =
     {p. keeps a p \<and> (\<exists>r \<in> set (packets_table db).
           row_lat r \<noteq> 0 \<and> row_lon r \<noteq> 0 \<and> row_signal r \<noteq> 0 \<and> p = make_packet devs r)}"
  using load_result [OF assms] by auto




lemma timestamp_make_packet: "timestamp (make_packet devs r) = ts_sec r"
  by (simp add: make_packet_def Let_def)

lemma loaded_band:
  assumes "snd (load_kismet_data db a) = Inr (packets, devs)" and "p \<in> set packets"
  shows "band p = get_band (frequency p)"
proof -
  from assms(2) obtain r where "p = make_packet devs r"
    unfolding loaded_packets [OF assms(1)] by blast
  then show ?thesis by (simp add: make_packet_def Let_def)
qed

section \<open>The filters\<close>

text \<open>
  Every returned packet passes the band, type, ESSID and MAC filters that are given,
  and the signal filter when the minimum is not 0.
\<close>

lemma filters_sound_unless_min_signal_zero:
  assumes "snd (load_kismet_data db a) = Inr (packets, devs)" and "p \<in> set packets"
  shows "(given (arg_band a) \<longrightarrow> band p \<in> set (values_of (arg_band a))) \<and>
         (arg_min_signal a \<noteq> 0 \<longrightarrow> arg_min_signal a \<le> signal p) \<and>
         (given (arg_type a) \<longrightarrow> (\<exists>t \<in> set (values_of (arg_type a)). type p = Some t)) \<and>
         (given (arg_essid a) \<longrightarrow> (\<exists>s \<in> set (values_of (arg_essid a)). ssid p = PStr s)) \<and>
         (given (arg_mac a) \<longrightarrow> mac p \<in> set (values_of (arg_mac a)))"
proof -
  from load_result [OF assms(1)] assms(2) have k: "keeps a p" by auto
  then show ?thesis
    by (auto simp: keeps_def skip_band_def skip_min_signal_def skip_type_def skip_essid_def
        skip_mac_def)
qed

text \<open>
  C1. Every packet that \<open>load_kismet_data\<close> returns should satisfy every filter given on
  the command line, the signal one included: with \<^verbatim>\<open>--min-signal m\<close> its signal is at
  least \<open>m\<close>. The loop tests \<^verbatim>\<open>args.min_signal and ...\<close>, and 0 is false in
  Python: with \<^verbatim>\<open>--min-signal 0\<close> the loader returns a packet of -50 dBm.
\<close>

theorem min_signal_zero_is_not_applied:
  "snd (load_kismet_data
        \<lparr>devices_table = [], packets_table = [packet_row_at 1 (- 50) ''AA:AA:AA:AA:AA:AA'']\<rparr>
        (default_args\<lparr>arg_min_signal := 0\<rparr>)) =
   Inr ([\<lparr>lat = 52, lon = 13, signal = - 50, frequency = 2412000,
          mac = ''AA:AA:AA:AA:AA:AA'', timestamp = 1, band = ''2.4'', ssid = PNone,
          type = None\<rparr>], []) \<and>
   \<not> (arg_min_signal (default_args\<lparr>arg_min_signal := 0\<rparr>) \<le> - 50)"
  by (simp add: run_defs)

section \<open>The order of the packets\<close>

text \<open>
  C8. For every database and every choice of filters, the packets \<open>load_kismet_data\<close>
  returns are in non-decreasing order of their timestamp: the loop drops rows of the
  ordered query result and never reorders them.
\<close>

theorem load_kismet_data_sorted_by_timestamp:
  assumes "snd (load_kismet_data db a) = Inr (packets, devs)"
  shows "sorted (map timestamp packets)"
proof -
  let ?rows = "sort_key ts_sec
     (filter (\<lambda>r. row_lat r \<noteq> 0 \<and> row_lon r \<noteq> 0 \<and> row_signal r \<noteq> 0) (packets_table db))"
  have p: "packets = filter (keeps a) (map (make_packet devs) ?rows)"
    using load_result [OF assms] by simp
  have "sorted (map ts_sec ?rows)" by (rule sorted_sort_key)
  moreover have "timestamp \<circ> make_packet devs = ts_sec"
    by (rule ext) (simp add: timestamp_make_packet)
  ultimately have "sorted (map timestamp (map (make_packet devs) ?rows))"
    by (simp only: map_map)
  then show ?thesis unfolding p by (rule sorted_filter)
qed

theorem load_kismet_data_sorted_by_timestamp_witness:
  "snd (load_kismet_data
        \<lparr>devices_table = [],
         packets_table = [packet_row_at 7 (- 50) ''AA:AA:AA:AA:AA:AA'',
                          packet_row_at 3 (- 120) ''AA:AA:AA:AA:AA:AA'',
                          packet_row_at 5 (- 60) ''BB:BB:BB:BB:BB:BB'']\<rparr>
        default_args) =
   Inr (map (make_packet []) [packet_row_at 5 (- 60) ''BB:BB:BB:BB:BB:BB'',
                              packet_row_at 7 (- 50) ''AA:AA:AA:AA:AA:AA''], []) \<and>
   sorted (map timestamp (map (make_packet []) [packet_row_at 5 (- 60) ''BB:BB:BB:BB:BB:BB'',
                              packet_row_at 7 (- 50) ''AA:AA:AA:AA:AA:AA'']))"
proof -
  have h: "snd (load_kismet_data
        \<lparr>devices_table = [],
         packets_table = [packet_row_at 7 (- 50) ''AA:AA:AA:AA:AA:AA'',
                          packet_row_at 3 (- 120) ''AA:AA:AA:AA:AA:AA'',
                          packet_row_at 5 (- 60) ''BB:BB:BB:BB:BB:BB'']\<rparr>
        default_args) =
   Inr (map (make_packet []) [packet_row_at 5 (- 60) ''BB:BB:BB:BB:BB:BB'',
                              packet_row_at 7 (- 50) ''AA:AA:AA:AA:AA:AA''], [])"
    by (simp add: run_defs)
  from load_kismet_data_sorted_by_timestamp [OF h] h show ?thesis by blast
qed

section \<open>The SQL reads\<close>

text \<open>
  C6, as the code has it. \<open>load_kismet_data\<close> does not read the database once: it runs
  two SELECT statements, the first on the table of devices and the second on the table
  of packets. Whenever it returns, exactly these two have run, in this order; when an
  exception leaves it, only the first has.
\<close>

theorem load_kismet_data_two_reads:
  "(\<forall>r. snd (load_kismet_data db a) = Inr r \<longrightarrow>
        fst (load_kismet_data db a) = [SelectDevices, SelectPackets]) \<and>
   (\<forall>e. snd (load_kismet_data db a) = Inl e \<longrightarrow>
        fst (load_kismet_data db a) = [SelectDevices])"
  by (auto simp: load_kismet_data_def execute_select_devices_def execute_select_packets_def
      Let_def split: sum.splits prod.splits)

theorem load_kismet_data_two_reads_witness:
  "snd (load_kismet_data
         \<lparr>devices_table = [], packets_table = [packet_row_at 1 (- 50) ''AA:AA:AA:AA:AA:AA'']\<rparr>
         default_args) =
     Inr (map (make_packet []) [packet_row_at 1 (- 50) ''AA:AA:AA:AA:AA:AA''], []) \<and>
   fst (load_kismet_data
         \<lparr>devices_table = [], packets_table = [packet_row_at 1 (- 50) ''AA:AA:AA:AA:AA:AA'']\<rparr>
         default_args) = [SelectDevices, SelectPackets]"
proof -
  have h: "snd (load_kismet_data
         \<lparr>devices_table = [], packets_table = [packet_row_at 1 (- 50) ''AA:AA:AA:AA:AA:AA'']\<rparr>
         default_args) =
     Inr (map (make_packet []) [packet_row_at 1 (- 50) ''AA:AA:AA:AA:AA:AA''], [])"
    by (simp add: run_defs)
  with load_kismet_data_two_reads
         [of "\<lparr>devices_table = [],
               packets_table = [packet_row_at 1 (- 50) ''AA:AA:AA:AA:AA:AA'']\<rparr>" default_args]
  show ?thesis by blast
qed

text \<open>
  The claim as the specification words it, one SQL read, fails on every database: on
  the empty one the loader has run two statements when it returns.
\<close>

theorem single_sql_read_counterexample:
  "snd (load_kismet_data \<lparr>devices_table = [], packets_table = []\<rparr> default_args) = Inr ([], []) \<and>
   fst (load_kismet_data \<lparr>devices_table = [], packets_table = []\<rparr> default_args) =
     [SelectDevices, SelectPackets] \<and>
   length (fst (load_kismet_data \<lparr>devices_table = [], packets_table = []\<rparr> default_args)) \<noteq> 1"
  by (simp add: run_defs)

section \<open>The check that the input exists\<close>

text \<open>
  C7. When the path given by \<^verbatim>\<open>--input\<close> does not exist, \<open>main\<close> prints an error
  message and exits with status 1 before it opens or reads the database, and writes
  neither a heatmap nor a CSV file: all it does is print.
\<close>

theorem main_input_not_found:
  assumes "files w (arg_input a) = None"
  shows "snd (main float_str w a) = Exit 1 \<and>
         fst (main float_str w a) =
           (if folium_available w then [Print (InputNotFound (arg_input a))]
            else [Print FoliumRequired, Print InstallHint]) \<and>
         (\<forall>e \<in> set (fst (main float_str w a)). \<exists>m. e = Print m)"
  using assms by (simp add: main_def)

theorem main_input_not_found_witness:
  "files example_world (arg_input default_args) = None \<and>
   main example_float_str example_world default_args =
     ([Print (InputNotFound ''capture.kismet'')], Exit 1)"
proof -
  have h: "files example_world (arg_input default_args) = None"
    by (simp add: example_world_def)
  from main_input_not_found [OF h, of example_float_str] h show ?thesis
    by (simp add: example_world_def default_args_def prod_eq_iff)
qed

section \<open>The default restriction to access points\<close>







section \<open>The CSV export\<close>

lemma replace_from_single:
  "replace_from [x] [y] 0 s = map (\<lambda>c. if c = x then y else c) s"
  by (induction s) auto

lemma csv_ssid_cases:
  "csv_ssid v = Inr s \<Longrightarrow>
   (\<not> truthy v \<and> s = []) \<or>
   (\<exists>orig. v = PStr orig \<and>
      s = map (\<lambda>c. if c = CHR '','' then CHR '';'' else if c = CHR 0x22 then CHR 0x27 else c)
            orig)"
  by (cases v) (auto simp: csv_ssid_def str_replace_def replace_from_single split: if_splits)

lemma csv_ssid_clean: "csv_ssid v = Inr s \<Longrightarrow> CHR '','' \<notin> set s \<and> CHR 0x22 \<notin> set s"
  by (drule csv_ssid_cases) auto

lemma plain_append: "plain (s @ t) = (plain s \<and> plain t)"
  by (auto simp: plain_def)

lemma split_plain:
  "plain s \<Longrightarrow> split_csv q cur (s @ rest) = split_csv q (cur @ s) rest"
  by (induction s arbitrary: cur) (auto simp: plain_def)

lemma split_field:
  "plain s \<Longrightarrow> split_csv False cur (s @ CHR '','' # rest) = (cur @ s) # split_csv False [] rest"
  by (simp add: split_plain)

lemma split_inside:
  "CHR 0x22 \<notin> set s \<Longrightarrow> split_csv True cur (s @ rest) = split_csv True (cur @ s) rest"
  by (induction s arbitrary: cur) auto

lemma split_quoted_field:
  "CHR 0x22 \<notin> set s \<Longrightarrow>
   split_csv False cur (CHR 0x22 # s @ CHR 0x22 # CHR '','' # rest) =
     (cur @ CHR 0x22 # s @ [CHR 0x22]) # split_csv False [] rest"
  by (simp add: split_inside)

lemma split_last: "plain s \<Longrightarrow> split_csv False cur (s @ [CHR 0x0A]) = [cur @ s @ [CHR 0x0A]]"
  using split_plain [of "s @ [CHR 0x0A]" False cur "[]"] by (simp add: plain_def)

lemma digit_plain: "n < 10 \<Longrightarrow> plain [''0123456789'' ! n]"
proof -
  assume "n < 10"
  then have "''0123456789'' ! n \<in> set ''0123456789''" by (intro nth_mem) simp
  then show ?thesis by (auto simp: plain_def)
qed

lemma str_nat_plain: "plain (str_nat n)"
proof (induction n rule: str_nat.induct)
  case (1 n)
  show ?case
  proof (cases "n < 10")
    case True
    then show ?thesis using digit_plain [of n] by (subst str_nat.simps) simp
  next
    case False
    have "n mod 10 < 10" by simp
    from digit_plain [OF this] "1" [OF False] False show ?thesis
      by (subst str_nat.simps) (simp add: plain_append)
  qed
qed

lemma str_int_plain: "plain (str_int i)"
  using str_nat_plain [of "nat (- i)"] str_nat_plain [of "nat i"]
  by (simp add: str_int_def plain_def)

lemma get_band_plain: "plain (get_band f)"
  by (simp add: get_band_def plain_def Let_def)

text \<open>The text of a row, given the SSID \<open>s\<close> that goes between the quotes.\<close>

lemma csv_row_line:
  "csv_row float_str p = Inr line \<Longrightarrow>
   \<exists>s. csv_ssid (ssid p) = Inr s \<and>
       line = str_int (timestamp p) @ '','' @ float_str (lat p) @ '','' @
              float_str (lon p) @ '','' @ str_int (signal p) @ '','' @
              float_str (frequency p) @ '','' @ band p @ '','' @ mac p @ '','' @
              [CHR 0x22] @ s @ [CHR 0x22] @ '','' @
              (case type p of None \<Rightarrow> ''None'' | Some t \<Rightarrow> t) @ [CHR 0x0A]"
  by (auto simp: csv_row_def split: sum.splits)

lemma row_columns:
  assumes "CHR 0x22 \<notin> set s"
    and "plain f1" "plain f2" "plain f3" "plain f4" "plain f5" "plain f6" "plain f7" "plain f9"
  shows "spec_csv_columns
           (f1 @ '','' @ f2 @ '','' @ f3 @ '','' @ f4 @ '','' @ f5 @ '','' @ f6 @ '','' @ f7 @
            '','' @ [CHR 0x22] @ s @ [CHR 0x22] @ '','' @ f9 @ [CHR 0x0A]) =
         [f1, f2, f3, f4, f5, f6, f7, [CHR 0x22] @ s @ [CHR 0x22], f9 @ [CHR 0x0A]]"
  using assms
  by (simp add: spec_csv_columns_def split_field split_quoted_field split_last
      del: split_csv.simps)

lemma header_columns: "length (spec_csv_columns csv_header) = 9"
  by (simp add: spec_csv_columns_def csv_header_def)

lemma write_rows_lines:
  "write_rows float_str ps acc = (written, err) \<Longrightarrow>
   \<exists>lines. written = acc @ lines \<and>
     (\<forall>l \<in> set lines. \<exists>p \<in> set ps. csv_row float_str p = Inr l)"
proof (induction ps arbitrary: acc)
  case Nil
  then show ?case by simp
next
  case (Cons p ps)
  show ?case
  proof (cases "csv_row float_str p")
    case (Inl e)
    with Cons.prems show ?thesis by simp
  next
    case (Inr line)
    with Cons.prems have "write_rows float_str ps (acc @ [line]) = (written, err)" by simp
    from Cons.IH [OF this] obtain lines where
      l: "written = (acc @ [line]) @ lines"
         "\<forall>l \<in> set lines. \<exists>p \<in> set ps. csv_row float_str p = Inr l" by blast
    have "written = acc @ (line # lines)" using l(1) by simp
    moreover have "\<forall>l \<in> set (line # lines). \<exists>q \<in> set (p # ps). csv_row float_str q = Inr l"
      using l(2) Inr by auto
    ultimately show ?thesis by blast
  qed
qed

lemma export_csv_lines:
  assumes "export_csv float_str packets out = (path, written, err)"
  shows "hd written = csv_header \<and>
         (\<forall>l \<in> set (tl written). \<exists>p \<in> set packets. csv_row float_str p = Inr l)"
proof -
  from assms have "write_rows float_str packets [csv_header] = (written, err)"
    by (simp add: export_csv_def Let_def split: prod.splits)
  from write_rows_lines [OF this] show ?thesis by auto
qed

text \<open>
  C10, as the code has it. The file \<open>export_csv\<close> writes starts with the header, which
  has 9 columns. Every data row is the row of a packet whose SSID is a string or is
  false in Python: the seven fields before the SSID, then, between double quotes, the
  original SSID (the empty text when there is none) with every comma replaced by a
  semicolon and every double quote by a single quote, so that the text between the
  quotes has neither a comma nor a double quote, then the type. The row, split at the
  commas outside the quoted field, has 9 columns, the eighth being the quoted SSID,
  provided the MAC and the type of the packet have neither a comma nor a double quote
  (and the text of a float has none): the export writes these two fields as they are.
\<close>

theorem export_csv_rows:
  assumes "snd (load_kismet_data db a) = Inr (packets, devs)"
    and "export_csv float_str packets out = (path, written, err)"
    and "line \<in> set (tl written)"
  shows "hd written = csv_header \<and> length (spec_csv_columns csv_header) = 9 \<and>
     (\<exists>p \<in> set packets. \<exists>s.
        s = map (\<lambda>c. if c = CHR '','' then CHR '';'' else if c = CHR 0x22 then CHR 0x27 else c)
              (case ssid p of PStr orig \<Rightarrow> orig | _ \<Rightarrow> []) \<and>
        CHR '','' \<notin> set s \<and> CHR 0x22 \<notin> set s \<and>
        line = str_int (timestamp p) @ '','' @ float_str (lat p) @ '','' @
               float_str (lon p) @ '','' @ str_int (signal p) @ '','' @
               float_str (frequency p) @ '','' @ band p @ '','' @ mac p @ '','' @
               [CHR 0x22] @ s @ [CHR 0x22] @ '','' @
               (case type p of None \<Rightarrow> ''None'' | Some t \<Rightarrow> t) @ [CHR 0x0A] \<and>
        ((\<forall>x. plain (float_str x)) \<and> plain (mac p) \<and>
         plain (case type p of None \<Rightarrow> ''None'' | Some t \<Rightarrow> t) \<longrightarrow>
           length (spec_csv_columns line) = 9 \<and>
           spec_csv_columns line ! 7 = [CHR 0x22] @ s @ [CHR 0x22]))"
proof -
  from export_csv_lines [OF assms(2)] assms(3) obtain p where
    p: "p \<in> set packets" "csv_row float_str p = Inr line" and h: "hd written = csv_header"
    by blast
  from csv_row_line [OF p(2)] obtain s where
    s: "csv_ssid (ssid p) = Inr s" and
    l: "line = str_int (timestamp p) @ '','' @ float_str (lat p) @ '','' @
               float_str (lon p) @ '','' @ str_int (signal p) @ '','' @
               float_str (frequency p) @ '','' @ band p @ '','' @ mac p @ '','' @
               [CHR 0x22] @ s @ [CHR 0x22] @ '','' @
               (case type p of None \<Rightarrow> ''None'' | Some t \<Rightarrow> t) @ [CHR 0x0A]"
    by blast
  have clean: "CHR '','' \<notin> set s \<and> CHR 0x22 \<notin> set s" using s by (rule csv_ssid_clean)
  have m: "s = map (\<lambda>c. if c = CHR '','' then CHR '';'' else if c = CHR 0x22 then CHR 0x27 else c)
              (case ssid p of PStr orig \<Rightarrow> orig | _ \<Rightarrow> [])"
    using csv_ssid_cases [OF s] by (cases "ssid p") auto
  have b: "plain (band p)"
    using loaded_band [OF assms(1) p(1)] by (simp add: get_band_plain)
  have cols: "(\<forall>x. plain (float_str x)) \<and> plain (mac p) \<and>
         plain (case type p of None \<Rightarrow> ''None'' | Some t \<Rightarrow> t) \<longrightarrow>
           length (spec_csv_columns line) = 9 \<and>
           spec_csv_columns line ! 7 = [CHR 0x22] @ s @ [CHR 0x22]"
  proof
    assume a: "(\<forall>x. plain (float_str x)) \<and> plain (mac p) \<and>
         plain (case type p of None \<Rightarrow> ''None'' | Some t \<Rightarrow> t)"
    have "spec_csv_columns line =
        [str_int (timestamp p), float_str (lat p), float_str (lon p), str_int (signal p),
         float_str (frequency p), band p, mac p, [CHR 0x22] @ s @ [CHR 0x22],
         (case type p of None \<Rightarrow> ''None'' | Some t \<Rightarrow> t) @ [CHR 0x0A]]"
      unfolding l using clean a b by (intro row_columns) (simp_all add: str_int_plain)
    then show "length (spec_csv_columns line) = 9 \<and>
           spec_csv_columns line ! 7 = [CHR 0x22] @ s @ [CHR 0x22]"
      by simp
  qed
  show ?thesis using h header_columns p(1) m clean l cols by blast
qed

text \<open>
  A capture with one access point that beacons the SSID \<open>Cafe, Bar\<close> and one packet
  from it: the row has the SSID \<open>Cafe; Bar\<close> between the quotes, as its eighth of 9
  columns.
\<close>

theorem export_csv_rows_witness:
  "snd (load_kismet_data
         \<lparr>devices_table = [device_row_of ''AA:AA:AA:AA:AA:AA'' ''Wi-Fi AP''
                              (device_json_with_ssid ''Cafe, Bar'')],
          packets_table = [packet_row_at 1 (- 50) ''AA:AA:AA:AA:AA:AA'']\<rparr>
         default_args) =
     Inr ([\<lparr>lat = 52, lon = 13, signal = - 50, frequency = 2412000,
            mac = ''AA:AA:AA:AA:AA:AA'', timestamp = 1, band = ''2.4'',
            ssid = PStr ''Cafe, Bar'', type = Some ''Wi-Fi AP''\<rparr>],
          [(''AA:AA:AA:AA:AA:AA'',
            \<lparr>dev_type = Some ''Wi-Fi AP'', dev_strongest_signal = - 40,
             dev_avg_lat = 52, dev_avg_lon = 13, dev_ssid = PStr ''Cafe, Bar''\<rparr>)]) \<and>
   export_csv example_float_str
     [\<lparr>lat = 52, lon = 13, signal = - 50, frequency = 2412000,
       mac = ''AA:AA:AA:AA:AA:AA'', timestamp = 1, band = ''2.4'',
       ssid = PStr ''Cafe, Bar'', type = Some ''Wi-Fi AP''\<rparr>]
     ''kismet_heatmap.html'' =
     (''kismet_heatmap.csv'',
      [csv_header,
       ''1,52.0,13.0,-50,2412000.0,2.4,AA:AA:AA:AA:AA:AA,'' @ [CHR 0x22] @ ''Cafe; Bar'' @
         [CHR 0x22] @ '',Wi-Fi AP'' @ [CHR 0x0A]],
      None) \<and>
   length (spec_csv_columns
     (''1,52.0,13.0,-50,2412000.0,2.4,AA:AA:AA:AA:AA:AA,'' @ [CHR 0x22] @ ''Cafe; Bar'' @
         [CHR 0x22] @ '',Wi-Fi AP'' @ [CHR 0x0A])) = 9 \<and>
   spec_csv_columns
     (''1,52.0,13.0,-50,2412000.0,2.4,AA:AA:AA:AA:AA:AA,'' @ [CHR 0x22] @ ''Cafe; Bar'' @
         [CHR 0x22] @ '',Wi-Fi AP'' @ [CHR 0x0A]) ! 7 = [CHR 0x22] @ ''Cafe; Bar'' @ [CHR 0x22]"
proof -
  let ?db = "\<lparr>devices_table = [device_row_of ''AA:AA:AA:AA:AA:AA'' ''Wi-Fi AP''
                              (device_json_with_ssid ''Cafe, Bar'')],
          packets_table = [packet_row_at 1 (- 50) ''AA:AA:AA:AA:AA:AA'']\<rparr>"
  let ?p = "\<lparr>lat = 52, lon = 13, signal = - 50, frequency = 2412000,
            mac = ''AA:AA:AA:AA:AA:AA'', timestamp = 1, band = ''2.4'',
            ssid = PStr ''Cafe, Bar'', type = Some ''Wi-Fi AP''\<rparr>"
  let ?devs = "[(''AA:AA:AA:AA:AA:AA'',
            \<lparr>dev_type = Some ''Wi-Fi AP'', dev_strongest_signal = - 40,
             dev_avg_lat = 52, dev_avg_lon = 13, dev_ssid = PStr ''Cafe, Bar''\<rparr>)]"
  let ?line = "''1,52.0,13.0,-50,2412000.0,2.4,AA:AA:AA:AA:AA:AA,'' @ [CHR 0x22] @
         ''Cafe; Bar'' @ [CHR 0x22] @ '',Wi-Fi AP'' @ [CHR 0x0A]"
  have h1: "snd (load_kismet_data ?db default_args) = Inr ([?p], ?devs)"
    by (simp add: run_defs)
  have h2: "export_csv example_float_str [?p] ''kismet_heatmap.html'' =
      (''kismet_heatmap.csv'', [csv_header, ?line], None)"
    by (simp add: export_csv_def csv_row_def csv_ssid_def str_replace_def str_int_def
        example_float_str_def)
  have h3: "?line \<in> set (tl [csv_header, ?line])" by simp
  have f: "\<forall>x. plain (example_float_str x)"
    by (simp add: example_float_str_def plain_def)
  from export_csv_rows [OF h1 h2 h3]
  have "(\<forall>x. plain (example_float_str x)) \<and> plain (mac ?p) \<and>
         plain (case type ?p of None \<Rightarrow> ''None'' | Some t \<Rightarrow> t) \<longrightarrow>
           length (spec_csv_columns ?line) = 9 \<and>
           spec_csv_columns ?line ! 7 = [CHR 0x22] @ ''Cafe; Bar'' @ [CHR 0x22]"
    by simp
  moreover have "plain (mac ?p)" by (simp add: plain_def)
  moreover have "plain (case type ?p of None \<Rightarrow> ''None'' | Some t \<Rightarrow> t)"
    by (simp add: plain_def)
  ultimately have "length (spec_csv_columns ?line) = 9 \<and>
           spec_csv_columns ?line ! 7 = [CHR 0x22] @ ''Cafe; Bar'' @ [CHR 0x22]"
    using f by blast
  with h1 h2 show ?thesis by blast
qed

text \<open>
  The claim as the specification words it gives every data row the 9 columns of the
  header. The type of a device is written as it is: a packet of a device whose type
  is \<open>Wi-Fi AP, bridged\<close> gives a row of 10 columns.
\<close>

theorem csv_row_columns_counterexample:
  "snd (load_kismet_data
         \<lparr>devices_table = [device_row_of ''AA:AA:AA:AA:AA:AA'' ''Wi-Fi AP, bridged'' Falsy],
          packets_table = [packet_row_at 1 (- 50) ''AA:AA:AA:AA:AA:AA'']\<rparr>
         default_args) =
     Inr ([\<lparr>lat = 52, lon = 13, signal = - 50, frequency = 2412000,
            mac = ''AA:AA:AA:AA:AA:AA'', timestamp = 1, band = ''2.4'',
            ssid = PNone, type = Some ''Wi-Fi AP, bridged''\<rparr>],
          [(''AA:AA:AA:AA:AA:AA'',
            \<lparr>dev_type = Some ''Wi-Fi AP, bridged'', dev_strongest_signal = - 40,
             dev_avg_lat = 52, dev_avg_lon = 13, dev_ssid = PNone\<rparr>)]) \<and>
   export_csv example_float_str
     [\<lparr>lat = 52, lon = 13, signal = - 50, frequency = 2412000,
       mac = ''AA:AA:AA:AA:AA:AA'', timestamp = 1, band = ''2.4'',
       ssid = PNone, type = Some ''Wi-Fi AP, bridged''\<rparr>]
     ''kismet_heatmap.html'' =
     (''kismet_heatmap.csv'',
      [csv_header,
       ''1,52.0,13.0,-50,2412000.0,2.4,AA:AA:AA:AA:AA:AA,'' @ [CHR 0x22, CHR 0x22] @
         '',Wi-Fi AP, bridged'' @ [CHR 0x0A]],
      None) \<and>
   length (spec_csv_columns
     (''1,52.0,13.0,-50,2412000.0,2.4,AA:AA:AA:AA:AA:AA,'' @ [CHR 0x22, CHR 0x22] @
         '',Wi-Fi AP, bridged'' @ [CHR 0x0A])) = 10 \<and>
   length (spec_csv_columns csv_header) = 9"
  by (simp add: run_defs export_csv_def csv_row_def csv_ssid_def str_replace_def str_int_def
      example_float_str_def spec_csv_columns_def csv_header_def)

end
